theory Spec2Isabelle
  imports Complex_Main "HOL-Library.Multiset" "HOL-Library.Sublist"
begin

section \<open>Berlin POI finder: shallow embedding of \<open>berlin_poi.py\<close>\<close>

text \<open>
  A Python float is modelled by the real number it denotes. The formula of
  \<open>haversine_distance\<close> is given in exact arithmetic: \<open>math.sin\<close>, \<open>math.cos\<close>,
  \<open>math.sqrt\<close> and \<open>math.atan2\<close> are the exact functions, without rounding. The
  interpreter evaluates the formula in double precision, where rounding can push the term
  \<open>a\<close> above one, so that \<open>math.sqrt(1 - a)\<close> raises for some pairs of nearly antipodal
  points. What the interpreter computes for a call of \<open>haversine_distance\<close> inside
  \<open>find_points_of_interest\<close>, a distance or an exception, is therefore a parameter of the
  environment, and the statements on the POI query hold for every such outcome.
\<close>

subsection \<open>Exceptions\<close>

text \<open>
  What can be raised: the errors the program and \<open>math.sqrt\<close> raise, and the errors of a
  collaborator, each with its message. \<open>ValueError\<close>, \<open>KeyError\<close> and \<open>CollaboratorError\<close>
  are instances of Python's \<open>Exception\<close>; \<open>NonException\<close> is an error whose class derives
  from \<open>BaseException\<close> but not from \<open>Exception\<close>. Both \<open>try\<close> blocks of the source have
  the clause \<open>except Exception\<close>: it handles the former and lets the latter propagate.
  \<open>str_exception\<close> is Python's \<open>str(e)\<close>; for a \<open>KeyError\<close> it is the \<open>repr\<close> of the
  key, given here for a key without quotes or escapes, such as \<open>amenity\<close>, the only key the
  program looks up.
\<close>

datatype py_exception =
    ValueError string
  | KeyError string
  | CollaboratorError string
  | NonException string

fun is_Exception :: "py_exception \<Rightarrow> bool" where
  \<comment> \<open>\<open>isinstance(e, Exception)\<close>, the test of \<open>except Exception\<close>.\<close>
  "is_Exception (ValueError msg) = True"
| "is_Exception (KeyError k) = True"
| "is_Exception (CollaboratorError msg) = True"
| "is_Exception (NonException msg) = False"

fun str_exception :: "py_exception \<Rightarrow> string" where
  "str_exception (ValueError msg) = msg"
| "str_exception (KeyError k) = [CHR 0x27] @ k @ [CHR 0x27]"
| "str_exception (CollaboratorError msg) = msg"
| "str_exception (NonException msg) = msg"

subsection \<open>The \<open>math\<close> module\<close>

definition radians :: "real \<Rightarrow> real" where
  "radians x = x * pi / 180"

definition py_sqrt :: "real \<Rightarrow> py_exception + real" where
  \<comment> \<open>\<open>math.sqrt\<close> raises \<open>ValueError\<close> on a negative argument.\<close>
  "py_sqrt x = (if x < 0 then Inl (ValueError ''math domain error'') else Inr (sqrt x))"

definition atan2 :: "real \<Rightarrow> real \<Rightarrow> real" where
  \<comment> \<open>\<open>math.atan2(y, x)\<close>: the angle of the point \<open>(x, y)\<close>, in \<open>(-pi, pi]\<close>.\<close>
  "atan2 y x =
     (if 0 < x then arctan (y / x)
      else if x < 0 then (if 0 \<le> y then arctan (y / x) + pi else arctan (y / x) - pi)
      else if 0 < y then pi / 2
      else if y < 0 then - (pi / 2)
      else 0)"

definition py_round :: "real \<Rightarrow> nat \<Rightarrow> real" where
  \<comment> \<open>\<open>round(x, ndigits)\<close>: nearest multiple of \<open>10 ^ (- ndigits)\<close>, ties to even.\<close>
  "py_round x ndigits =
     (let y = x * 10 ^ ndigits;
          f = \<lfloor>y\<rfloor>;
          r = y - of_int f
      in (if r < 1 / 2 then of_int f
          else if 1 / 2 < r then of_int f + 1
          else if even f then of_int f
          else of_int f + 1) / 10 ^ ndigits)"

subsection \<open>Distance calculator\<close>

definition hav_a :: "real \<Rightarrow> real \<Rightarrow> real \<Rightarrow> real \<Rightarrow> real" where
  \<comment> \<open>The local \<open>a\<close> of \<open>haversine_distance\<close>.\<close>
  "hav_a lat1 lon1 lat2 lon2 =
     (let lat1_rad = radians lat1;
          lon1_rad = radians lon1;
          lat2_rad = radians lat2;
          lon2_rad = radians lon2;
          dlat = lat2_rad - lat1_rad;
          dlon = lon2_rad - lon1_rad
      in (sin (dlat / 2))\<^sup>2 + cos lat1_rad * cos lat2_rad * (sin (dlon / 2))\<^sup>2)"

definition haversine_distance :: "real \<Rightarrow> real \<Rightarrow> real \<Rightarrow> real \<Rightarrow> py_exception + real" where
  "haversine_distance lat1 lon1 lat2 lon2 =
     (let R = 6371000;
          a = hav_a lat1 lon1 lat2 lon2
      in case py_sqrt a of
           Inl e \<Rightarrow> Inl e
         | Inr sa \<Rightarrow>
             (case py_sqrt (1 - a) of
                Inl e \<Rightarrow> Inl e
              | Inr sb \<Rightarrow>
                  (let c = 2 * atan2 sa sb;
                       distance = R * c
                   in Inr distance)))"

subsection \<open>Data of the collaborators\<close>

text \<open>
  A node of an Overpass result (\<open>node.tags\<close>, \<open>node.lat\<close>, \<open>node.lon\<close>), the location
  returned by the geocoder, and the dictionary built for each point of interest, with its
  keys \<open>name\<close>, \<open>type\<close>, \<open>latitude\<close>, \<open>longitude\<close> and \<open>distance_m\<close>.
\<close>

record node =
  node_tags :: "string \<rightharpoonup> string"
  node_lat :: real
  node_lon :: real

record geo_location =
  location_latitude :: real
  location_longitude :: real

record poi =
  name :: string
  type :: string
  latitude :: real
  longitude :: real
  distance_m :: real

subsection \<open>The folium map\<close>

datatype icon = Icon (icon_color: string) (icon_name: string)

datatype layer =
    is_Marker: Marker (marker_location: "real \<times> real") (marker_popup: string) (marker_icon: icon)
  | is_Circle: Circle (circle_location: "real \<times> real") (circle_radius: real)
      (circle_color: string) (circle_fill: bool) (circle_fill_opacity: real)

record folium_map =
  map_location :: "real \<times> real"
  map_zoom_start :: nat
  map_children :: "layer list"

definition add_to :: "layer \<Rightarrow> folium_map \<Rightarrow> folium_map" where
  "add_to l m = m\<lparr>map_children := map_children m @ [l]\<rparr>"

subsection \<open>Effects\<close>

text \<open>
  Every function that acts on the outside world returns, next to its outcome, the sequence
  of its effects in the order in which they happen: a line printed, the prompt of \<open>input\<close>,
  a call of the geocoder with its query, a call of the Overpass API with its query, a map
  saved under a file name, and, at the end of a run, an error that nothing caught (the
  interpreter prints its traceback and the process ends). The outcome of a function is the
  value it returns or the error that propagates out of it. The collaborators themselves, the
  line typed by the user, the outcome of \<open>haversine_distance\<close> in double precision and
  Python's formatting of a number inside an f-string are parameters, gathered in an
  environment. \<open>input\<close> is taken to return a line and \<open>m.save\<close> to succeed: an end of
  input and a failing write are not part of the model.
\<close>

datatype event =
    Print string
  | Input string
  | GeocodeCall string
  | OverpassCall string
  | SaveFile string folium_map
  | Uncaught py_exception

record env =
  stdin_line :: string
  geocode :: "string \<Rightarrow> py_exception + geo_location option"
  overpass_query :: "string \<Rightarrow> py_exception + node list"
  computed_distance :: "real \<Rightarrow> real \<Rightarrow> real \<Rightarrow> real \<Rightarrow> py_exception + real"
  fmt :: "real \<Rightarrow> string"

definition nl :: string where
  "nl = [CHR 0x0A]"

definition dq :: string where
  "dq = [CHR 0x22]"

definition sq :: string where
  "sq = [CHR 0x27]"

function str_nat :: "nat \<Rightarrow> string" where
  "str_nat n =
     (if n < 10 then [char_of (48 + n)]
      else str_nat (n div 10) @ [char_of (48 + n mod 10)])"
  by pat_completeness auto
termination
  by (relation "measure (\<lambda>n. n)") auto

subsection \<open>Coordinate resolver\<close>

definition get_coordinates_try :: "env \<Rightarrow> string \<Rightarrow> (py_exception + real \<times> real) \<times> event list" where
  \<comment> \<open>The body of the \<open>try\<close> block.\<close>
  "get_coordinates_try env address =
     (let q = address @ '', Berlin, Germany''
      in (case geocode env q of
            Inl e \<Rightarrow> Inl e
          | Inr None \<Rightarrow> Inl (ValueError ''Address not found.'')
          | Inr (Some location) \<Rightarrow> Inr (location_latitude location, location_longitude location),
          [GeocodeCall q]))"

definition get_coordinates ::
    "env \<Rightarrow> string \<Rightarrow> (py_exception + real option \<times> real option) \<times> event list" where
  "get_coordinates env address =
     (case get_coordinates_try env address of
        (Inr (la, lo), t) \<Rightarrow> (Inr (Some la, Some lo), t)
      | (Inl e, t) \<Rightarrow>
          if is_Exception e then
            (Inr (None, None), t @ [Print (''Error geocoding address: '' @ str_exception e)])
          else (Inl e, t))"

subsection \<open>POI query service\<close>

definition overpass_query_text :: "env \<Rightarrow> real \<Rightarrow> real \<Rightarrow> real \<Rightarrow> string" where
  \<comment> \<open>The f-string \<open>query\<close>.\<close>
  "overpass_query_text env radius lat lon =
     nl @ ''    [out:json];'' @ nl
     @ ''    node(around:'' @ fmt env radius @ '','' @ fmt env lat @ '','' @ fmt env lon @ '')'' @ nl
     @ ''    ['' @ dq @ ''amenity'' @ dq @ ''];'' @ nl
     @ ''    out body;'' @ nl
     @ ''    ''"

fun for_nodes ::
    "env \<Rightarrow> real \<Rightarrow> real \<Rightarrow> real \<Rightarrow> node list \<Rightarrow> poi list \<Rightarrow> py_exception + poi list" where
  \<comment> \<open>The loop \<open>for node in result.nodes\<close>, with the list \<open>pois\<close> built so far; the call of
     \<open>haversine_distance\<close> has the outcome the environment gives.\<close>
  "for_nodes env lat lon radius [] pois = Inr pois"
| "for_nodes env lat lon radius (node # rest) pois =
     (if ''amenity'' \<in> dom (node_tags node) then
        (let poi_lat = node_lat node;
             poi_lon = node_lon node
         in case computed_distance env lat lon poi_lat poi_lon of
              Inl e \<Rightarrow> Inl e
            | Inr distance \<Rightarrow>
                if distance \<le> radius then
                  (let poi_name = (case node_tags node ''name'' of
                                     Some v \<Rightarrow> v
                                   | None \<Rightarrow> ''Unnamed POI'')
                   in if poi_name \<noteq> ''Unnamed POI'' then
                        (case node_tags node ''amenity'' of
                           None \<Rightarrow> Inl (KeyError ''amenity'')
                         | Some poi_type \<Rightarrow>
                             for_nodes env lat lon radius rest
                               (pois @ [\<lparr>name = poi_name, type = poi_type,
                                         latitude = poi_lat, longitude = poi_lon,
                                         distance_m = py_round distance 2\<rparr>]))
                      else for_nodes env lat lon radius rest pois)
                else for_nodes env lat lon radius rest pois)
      else for_nodes env lat lon radius rest pois)"

definition find_points_of_interest_try ::
    "env \<Rightarrow> string \<Rightarrow> real \<Rightarrow> real \<Rightarrow> real \<Rightarrow> (py_exception + poi list) \<times> event list" where
  \<comment> \<open>The body of the \<open>try\<close> block.\<close>
  "find_points_of_interest_try env query lat lon radius =
     (case overpass_query env query of
        Inl e \<Rightarrow> Inl e
      | Inr result_nodes \<Rightarrow> for_nodes env lat lon radius result_nodes [],
      [OverpassCall query])"

definition find_points_of_interest ::
    "env \<Rightarrow> real \<Rightarrow> real \<Rightarrow> real \<Rightarrow> (py_exception + poi list) \<times> event list" where
  "find_points_of_interest env lat lon radius =
     (let query = overpass_query_text env radius lat lon
      in case find_points_of_interest_try env query lat lon radius of
           (Inr pois, t) \<Rightarrow> (Inr pois, t)
         | (Inl e, t) \<Rightarrow>
             if is_Exception e then
               (Inr [], t @ [Print (''Error querying Overpass API: '' @ str_exception e)])
             else (Inl e, t))"

subsection \<open>Presentation builder\<close>

fun add_poi_markers :: "env \<Rightarrow> poi list \<Rightarrow> folium_map \<Rightarrow> folium_map" where
  \<comment> \<open>The loop \<open>for poi in pois\<close>.\<close>
  "add_poi_markers env [] m = m"
| "add_poi_markers env (poi # rest) m =
     add_poi_markers env rest
       (add_to (Marker (latitude poi, longitude poi)
                  (name poi @ '' ('' @ type poi @ '')'' @ nl @ fmt env (distance_m poi) @ ''m'')
                  (Icon ''blue'' ''star'')) m)"

definition create_map :: "env \<Rightarrow> real \<Rightarrow> real \<Rightarrow> poi list \<Rightarrow> string \<Rightarrow> event list" where
  "create_map env lat lon pois address =
     (let m0 = \<lparr>map_location = (lat, lon), map_zoom_start = 17, map_children = []\<rparr>;
          m1 = add_to (Marker (lat, lon) (''Starting Point: '' @ address)
                         (Icon ''red'' ''info-sign'')) m0;
          m2 = add_poi_markers env pois m1;
          m3 = add_to (Circle (lat, lon) 250 ''green'' True (1 / 10)) m2
      in [SaveFile ''poi_map.html'' m3,
          Print (''Map saved as '' @ sq @ ''poi_map.html'' @ sq
                 @ ''. Open it in a web browser to view.'')])"

subsection \<open>Orchestrator\<close>

definition poi_line :: "env \<Rightarrow> poi \<Rightarrow> string" where
  \<comment> \<open>The line printed for each point of interest.\<close>
  "poi_line env p =
     ''- '' @ name p @ '' ('' @ type p @ '') at ('' @ fmt env (latitude p) @ '', ''
     @ fmt env (longitude p) @ ''), '' @ fmt env (distance_m p) @ '' meters away''"

definition main :: "env \<Rightarrow> event list" where
  \<comment> \<open>The effects of a run; an error that propagates out of \<open>main\<close> ends it as \<open>Uncaught\<close>.\<close>
  "main env =
     (let address = stdin_line env;
          t0 = [Input ''Enter an address in Berlin: ''];
          (r1, t1) = get_coordinates env address
      in case r1 of
           Inl e \<Rightarrow> t0 @ t1 @ [Uncaught e]
         | Inr (Some lat, Some lon) \<Rightarrow>
             (let t2 = [Print (''Coordinates for '' @ address @ '': ('' @ fmt env lat @ '', ''
                               @ fmt env lon @ '')'')];
                  (r3, t3) = find_points_of_interest env lat lon 250
              in case r3 of
                   Inl e \<Rightarrow> t0 @ t1 @ t2 @ t3 @ [Uncaught e]
                 | Inr pois \<Rightarrow>
                     if pois \<noteq> [] then
                       t0 @ t1 @ t2 @ t3
                       @ [Print (nl @ ''Found '' @ str_nat (length pois)
                                 @ '' named points of interest within 250 meters:'')]
                       @ map (\<lambda>p. Print (poi_line env p)) pois
                       @ create_map env lat lon pois address
                     else
                       t0 @ t1 @ t2 @ t3
                       @ [Print ''No named points of interest found within 250 meters.''])
         | Inr _ \<Rightarrow> t0 @ t1 @ [Print ''Could not find coordinates for the address.''])"

subsection \<open>Notions used in the statements\<close>

definition haversine_m :: "real \<Rightarrow> real \<Rightarrow> real \<Rightarrow> real \<Rightarrow> real" where
  \<comment> \<open>The value returned by \<open>haversine_distance\<close> when neither square root raises.\<close>
  "haversine_m lat1 lon1 lat2 lon2 =
     6371000 * (2 * atan2 (sqrt (hav_a lat1 lon1 lat2 lon2)) (sqrt (1 - hav_a lat1 lon1 lat2 lon2)))"

definition raising :: "env \<Rightarrow> real \<Rightarrow> real \<Rightarrow> node \<Rightarrow> py_exception option" where
  \<comment> \<open>The error, if any, that the loop meets at a node: its distance is computed only when it
     has an \<open>amenity\<close> tag.\<close>
  "raising env lat lon node =
     (if ''amenity'' \<in> dom (node_tags node) then
        (case computed_distance env lat lon (node_lat node) (node_lon node) of
           Inl e \<Rightarrow> Some e
         | Inr d \<Rightarrow> None)
      else None)"

fun first_raise :: "env \<Rightarrow> real \<Rightarrow> real \<Rightarrow> node list \<Rightarrow> py_exception option" where
  "first_raise env lat lon [] = None"
| "first_raise env lat lon (node # rest) =
     (case raising env lat lon node of
        Some e \<Rightarrow> Some e
      | None \<Rightarrow> first_raise env lat lon rest)"

definition keeps :: "env \<Rightarrow> real \<Rightarrow> real \<Rightarrow> real \<Rightarrow> node \<Rightarrow> bool" where
  \<comment> \<open>The three tests a node passes before it is appended to \<open>pois\<close>.\<close>
  "keeps env lat lon radius node =
     (''amenity'' \<in> dom (node_tags node)
      \<and> (case computed_distance env lat lon (node_lat node) (node_lon node) of
            Inl e \<Rightarrow> False
          | Inr d \<Rightarrow> d \<le> radius)
      \<and> (case node_tags node ''name'' of None \<Rightarrow> False | Some v \<Rightarrow> v \<noteq> ''Unnamed POI''))"

definition poi_of :: "env \<Rightarrow> real \<Rightarrow> real \<Rightarrow> node \<Rightarrow> poi" where
  \<comment> \<open>The dictionary appended for a node that passes them.\<close>
  "poi_of env lat lon node =
     \<lparr>name = the (node_tags node ''name''), type = the (node_tags node ''amenity''),
      latitude = node_lat node, longitude = node_lon node,
      distance_m =
        (case computed_distance env lat lon (node_lat node) (node_lon node) of
           Inl e \<Rightarrow> 0
         | Inr d \<Rightarrow> py_round d 2)\<rparr>"

definition built_from :: "env \<Rightarrow> real \<Rightarrow> real \<Rightarrow> poi \<Rightarrow> node \<Rightarrow> bool" where
  \<comment> \<open>The dictionary \<open>p\<close> carries the name, the amenity and the coordinates of the node, and
     the distance computed for it, rounded.\<close>
  "built_from env lat lon p node =
     (node_tags node ''name'' = Some (name p)
      \<and> node_tags node ''amenity'' = Some (type p)
      \<and> latitude p = node_lat node
      \<and> longitude p = node_lon node
      \<and> (case computed_distance env lat lon (node_lat node) (node_lon node) of
            Inl e \<Rightarrow> False
          | Inr d \<Rightarrow> distance_m p = py_round d 2))"

definition found_from :: "env \<Rightarrow> real \<Rightarrow> real \<Rightarrow> real \<Rightarrow> node list \<Rightarrow> py_exception + poi list" where
  \<comment> \<open>The outcome of \<open>find_points_of_interest\<close> when the Overpass API answers with \<open>ns\<close>.\<close>
  "found_from env lat lon radius ns =
     fst (find_points_of_interest (env\<lparr>overpass_query := \<lambda>q. Inr ns\<rparr>) lat lon radius)"

definition geocode_queries :: "event list \<Rightarrow> string list" where
  "geocode_queries t = concat (map (\<lambda>ev. case ev of GeocodeCall q \<Rightarrow> [q] | _ \<Rightarrow> []) t)"

definition overpass_queries :: "event list \<Rightarrow> string list" where
  "overpass_queries t = concat (map (\<lambda>ev. case ev of OverpassCall q \<Rightarrow> [q] | _ \<Rightarrow> []) t)"

definition saved_maps :: "event list \<Rightarrow> (string \<times> folium_map) list" where
  "saved_maps t = concat (map (\<lambda>ev. case ev of SaveFile f m \<Rightarrow> [(f, m)] | _ \<Rightarrow> []) t)"

definition circles :: "event list \<Rightarrow> layer list" where
  \<comment> \<open>The circle overlays of the maps saved.\<close>
  "circles t = concat (map (\<lambda>(f, m). filter is_Circle (map_children m)) (saved_maps t))"

subsection \<open>Example data\<close>

definition cafe :: "real \<Rightarrow> real \<Rightarrow> node" where
  "cafe la lo = \<lparr>node_tags = [''amenity'' \<mapsto> ''cafe'', ''name'' \<mapsto> ''Cafe X''],
                 node_lat = la, node_lon = lo\<rparr>"

definition bench :: "real \<Rightarrow> real \<Rightarrow> node" where
  \<comment> \<open>A node with no \<open>name\<close> tag.\<close>
  "bench la lo = \<lparr>node_tags = [''amenity'' \<mapsto> ''bench''], node_lat = la, node_lon = lo\<rparr>"

definition placeholder :: "real \<Rightarrow> real \<Rightarrow> node" where
  \<comment> \<open>A node whose \<open>name\<close> tag is the text \<open>Unnamed POI\<close>.\<close>
  "placeholder la lo = \<lparr>node_tags = [''amenity'' \<mapsto> ''bar'', ''name'' \<mapsto> ''Unnamed POI''],
                        node_lat = la, node_lon = lo\<rparr>"

definition example_distance :: "real \<Rightarrow> real \<Rightarrow> real \<Rightarrow> real \<Rightarrow> py_exception + real" where
  \<comment> \<open>The outcomes of \<open>haversine_distance\<close> in double precision at the points of the examples:
     from \<open>(8, 0)\<close> to \<open>(-8, 180)\<close> the rounded term \<open>a\<close> is \<open>1 + 2 ^ -52\<close> and
     \<open>math.sqrt(1 - a)\<close> raises; from \<open>(8, 0)\<close> to \<open>(8, 1 / 512)\<close> the result is the double
     \<open>7566892985152605 / 2 ^ 45\<close>, about 215.064 metres; between coincident points it is
     zero. At other points the exact value of the formula stands in for the rounded one.\<close>
  "example_distance lat1 lon1 lat2 lon2 =
     (if (lat1, lon1, lat2, lon2) = (8, 0, - 8, 180) then Inl (ValueError ''math domain error'')
      else if (lat1, lon1, lat2, lon2) = (8, 0, 8, 1 / 512)
        then Inr (7566892985152605 / 35184372088832)
      else if (lat1, lon1) = (lat2, lon2) then Inr 0
      else haversine_distance lat1 lon1 lat2 lon2)"

definition example_env :: "(py_exception + geo_location option) \<Rightarrow> (py_exception + node list) \<Rightarrow> env" where
  \<comment> \<open>The user types \<open>Alexanderplatz 1\<close>; the collaborators answer every query alike.\<close>
  "example_env g r =
     \<lparr>stdin_line = ''Alexanderplatz 1'', geocode = (\<lambda>q. g), overpass_query = (\<lambda>q. r),
      computed_distance = example_distance, fmt = (\<lambda>x. ''#'')\<rparr>"

section \<open>Properties\<close>

subsection \<open>The haversine term stays in the unit interval\<close>

text \<open>
  In exact arithmetic the term \<open>a\<close> is a convex combination of two squares, so both
  square roots are defined and the formula of \<open>haversine_distance\<close> never raises.
\<close>

lemma sin_half_diff_sq: "(sin ((x - y) / 2))\<^sup>2 = (sin ((y - x) / 2))\<^sup>2" for x y :: real
proof -
  have "(x - y) / 2 = - ((y - x) / 2)" by argo
  then have "sin ((x - y) / 2) = - sin ((y - x) / 2)" by (metis sin_minus)
  then show ?thesis by simp
qed

lemma cos_prod: "cos (u - v) * cos (u + v) = (cos u)\<^sup>2 - (sin v)\<^sup>2" for u v :: real
proof -
  have "cos (u - v) * cos (u + v) =
          (cos u * cos v + sin u * sin v) * (cos u * cos v - sin u * sin v)"
    by (simp only: cos_add cos_diff)
  also have "\<dots> = (cos u)\<^sup>2 * (cos v)\<^sup>2 - (sin u)\<^sup>2 * (sin v)\<^sup>2"
    by (simp only: power2_eq_square) algebra
  also have "\<dots> = (cos u)\<^sup>2 * (1 - (sin v)\<^sup>2) - (1 - (cos u)\<^sup>2) * (sin v)\<^sup>2"
    by (simp only: cos_squared_eq [of v] sin_squared_eq [of u])
  also have "\<dots> = (cos u)\<^sup>2 - (sin v)\<^sup>2"
    by algebra
  finally show ?thesis .
qed

lemma hav_a_convex:
  "hav_a lat1 lon1 lat2 lon2 =
     (1 - (sin ((radians lon2 - radians lon1) / 2))\<^sup>2) * (sin ((radians lat2 - radians lat1) / 2))\<^sup>2
     + (sin ((radians lon2 - radians lon1) / 2))\<^sup>2 * (cos ((radians lat1 + radians lat2) / 2))\<^sup>2"
proof -
  define u where "u = (radians lat1 + radians lat2) / 2"
  define v where "v = (radians lat2 - radians lat1) / 2"
  have l1: "radians lat1 = u - v" and l2: "radians lat2 = u + v"
    by (simp_all add: u_def v_def field_simps)
  have prod: "cos (radians lat1) * cos (radians lat2) = (cos u)\<^sup>2 - (sin v)\<^sup>2"
    unfolding l1 l2 by (rule cos_prod)
  have "hav_a lat1 lon1 lat2 lon2 =
          (sin v)\<^sup>2 + ((cos u)\<^sup>2 - (sin v)\<^sup>2) * (sin ((radians lon2 - radians lon1) / 2))\<^sup>2"
    unfolding hav_a_def Let_def by (simp only: prod v_def)
  also have "\<dots> = (1 - (sin ((radians lon2 - radians lon1) / 2))\<^sup>2) * (sin v)\<^sup>2
          + (sin ((radians lon2 - radians lon1) / 2))\<^sup>2 * (cos u)\<^sup>2"
    by algebra
  finally show ?thesis unfolding u_def v_def .
qed

lemma hav_a_ge0: "0 \<le> hav_a lat1 lon1 lat2 lon2"
proof -
  have "(sin ((radians lon2 - radians lon1) / 2))\<^sup>2 \<le> 1"
    by (simp add: abs_square_le_1 )
  then show ?thesis unfolding hav_a_convex by simp
qed

lemma hav_a_le1: "hav_a lat1 lon1 lat2 lon2 \<le> 1"
proof -
  let ?s = "(sin ((radians lon2 - radians lon1) / 2))\<^sup>2"
  let ?p = "(sin ((radians lat2 - radians lat1) / 2))\<^sup>2"
  let ?q = "(cos ((radians lat1 + radians lat2) / 2))\<^sup>2"
  have s: "0 \<le> ?s" "?s \<le> 1" and p: "?p \<le> 1" and q: "?q \<le> 1"
    by (simp_all add: abs_square_le_1)
  have "(1 - ?s) * ?p \<le> (1 - ?s) * 1" using s p by (intro mult_left_mono) simp_all
  moreover have "?s * ?q \<le> ?s * 1" using s q by (intro mult_left_mono) simp_all
  ultimately show ?thesis unfolding hav_a_convex by simp
qed

lemma haversine_distance_total:
  "haversine_distance lat1 lon1 lat2 lon2 = Inr (haversine_m lat1 lon1 lat2 lon2)"
  using hav_a_ge0 [of lat1 lon1 lat2 lon2] hav_a_le1 [of lat1 lon1 lat2 lon2]
  by (simp add: haversine_distance_def haversine_m_def py_sqrt_def Let_def)

lemma haversine_m_refl: "haversine_m lat lon lat lon = 0"
  by (simp add: haversine_m_def hav_a_def atan2_def)

lemma hav_a_sym: "hav_a lat1 lon1 lat2 lon2 = hav_a lat2 lon2 lat1 lon1"
  unfolding hav_a_def Let_def
  by (simp add: sin_half_diff_sq [of "radians lat2" "radians lat1"]
      sin_half_diff_sq [of "radians lon2" "radians lon1"] mult.commute)

lemma haversine_m_ge0: "0 \<le> haversine_m lat1 lon1 lat2 lon2"
  using hav_a_ge0 [of lat1 lon1 lat2 lon2] hav_a_le1 [of lat1 lon1 lat2 lon2]
  by (simp add: haversine_m_def atan2_def zero_le_arctan_iff)

lemma hav_a_quarter: "hav_a 0 0 0 90 = 1 / 2"
proof -
  have "radians 90 / 2 = pi / 4" by (simp add: radians_def)
  then show ?thesis
    by (simp add: hav_a_def radians_def sin_45 power2_eq_square)
qed

lemma haversine_m_quarter: "haversine_m 0 0 0 90 = 6371000 * (pi / 2)"
  by (simp add: haversine_m_def hav_a_quarter atan2_def arctan_one real_sqrt_divide)

lemma hav_a_half: "hav_a 0 0 0 180 = 1"
proof -
  have "radians 180 / 2 = pi / 2" by (simp add: radians_def)
  then show ?thesis
    by (simp add: hav_a_def radians_def)
qed

lemma haversine_m_half: "haversine_m 0 0 0 180 = 6371000 * pi"
  by (simp add: haversine_m_def hav_a_half atan2_def)

subsection \<open>Distance calculator\<close>

text \<open>
  Claim C5. The distance from a point to itself is exactly zero: for every latitude and
  longitude (in particular for every valid one, latitude in \<open>[-90, 90]\<close> and longitude in
  \<open>[-180, 180]\<close>) \<open>haversine_distance\<close> returns \<open>0\<close> and does not raise.
\<close>

theorem haversine_distance_self:
  "haversine_distance lat lon lat lon = Inr 0"
  by (simp add: haversine_distance_total haversine_m_refl)

theorem haversine_distance_self_witness:
  "haversine_distance 52.52 13.405 52.52 13.405 = Inr 0"
  using haversine_distance_self [of "52.52" "13.405"] by simp

text \<open>
  Claim C6. The distance is symmetric: exchanging the two points does not change what
  \<open>haversine_distance\<close> returns (in exact arithmetic, by \<open>haversine_distance_total\<close>,
  both sides are distances, neither is an exception).
\<close>

theorem haversine_distance_symmetric:
  "haversine_distance lat1 lon1 lat2 lon2 = haversine_distance lat2 lon2 lat1 lon1"
  by (simp add: haversine_distance_def hav_a_sym [of lat1 lon1 lat2 lon2])

theorem haversine_distance_symmetric_witness:
  "haversine_distance 0 0 0 90 = haversine_distance 0 90 0 0
   \<and> haversine_distance 0 90 0 0 = Inr (6371000 * (pi / 2))"
  using haversine_distance_symmetric [of 0 0 0 90]
  by (simp add: haversine_distance_total haversine_m_quarter)

subsection \<open>The loop over the nodes\<close>

text \<open>
  The loop ends with the first error it meets, at a node with an \<open>amenity\<close> tag whose
  distance raises; when it meets none, it has appended the dictionary of every node that
  passes the three tests, in the order of the response.
\<close>

lemma for_nodes_step_raise:
  "raising env lat lon n = Some e \<Longrightarrow> for_nodes env lat lon radius (n # ns) acc = Inl e"
  by (auto simp add: raising_def Let_def split: if_splits sum.splits)

lemma for_nodes_step:
  "raising env lat lon n = None \<Longrightarrow>
     for_nodes env lat lon radius (n # ns) acc =
       for_nodes env lat lon radius ns
         (acc @ (if keeps env lat lon radius n then [poi_of env lat lon n] else []))"
  by (cases "node_tags n ''name''"; cases "node_tags n ''amenity''";
      cases "computed_distance env lat lon (node_lat n) (node_lon n)")
     (simp_all add: raising_def keeps_def poi_of_def dom_def Let_def)

lemma for_nodes_eq:
  "for_nodes env lat lon radius ns acc =
     (case first_raise env lat lon ns of
        Some e \<Rightarrow> Inl e
      | None \<Rightarrow> Inr (acc @ map (poi_of env lat lon) (filter (keeps env lat lon radius) ns)))"
proof (induction ns arbitrary: acc)
  case Nil
  show ?case by simp
next
  case (Cons n ns)
  show ?case
  proof (cases "raising env lat lon n")
    case None
    then show ?thesis
      by (simp only: for_nodes_step [OF None] Cons.IH) (simp split: option.splits)
  next
    case (Some e)
    then show ?thesis
      by (simp only: for_nodes_step_raise [OF Some]) simp
  qed
qed

lemma raising_update [simp]:
  "raising (env\<lparr>overpass_query := r\<rparr>) lat lon n = raising env lat lon n"
  by (simp add: raising_def)

lemma first_raise_update [simp]:
  "first_raise (env\<lparr>overpass_query := r\<rparr>) lat lon ns = first_raise env lat lon ns"
  by (induction ns) (simp_all split: option.splits)

lemma keeps_update [simp]:
  "keeps (env\<lparr>overpass_query := r\<rparr>) lat lon radius = keeps env lat lon radius"
  by (simp add: keeps_def fun_eq_iff)

lemma poi_of_update [simp]:
  "poi_of (env\<lparr>overpass_query := r\<rparr>) lat lon = poi_of env lat lon"
  by (simp add: poi_of_def fun_eq_iff)

lemma found_from_eq:
  "found_from env lat lon radius ns =
     (case first_raise env lat lon ns of
        None \<Rightarrow> Inr (map (poi_of env lat lon) (filter (keeps env lat lon radius) ns))
      | Some e \<Rightarrow> if is_Exception e then Inr [] else Inl e)"
  by (simp add: found_from_def find_points_of_interest_def find_points_of_interest_try_def
      for_nodes_eq split: option.splits)


lemma first_raise_append:
  "first_raise env lat lon (xs @ ys) =
     (case first_raise env lat lon xs of Some e \<Rightarrow> Some e | None \<Rightarrow> first_raise env lat lon ys)"
  by (induction xs) (simp_all split: option.splits)

lemma first_raise_drop:
  "raising env lat lon n = None \<Longrightarrow>
     first_raise env lat lon (pre @ n # post) = first_raise env lat lon (pre @ post)"
  by (simp add: first_raise_append split: option.splits)

lemma found_from_drop:
  "raising env lat lon n = None \<Longrightarrow> \<not> keeps env lat lon radius n \<Longrightarrow>
     found_from env lat lon radius (pre @ n # post) = found_from env lat lon radius (pre @ post)"
  by (simp add: found_from_eq first_raise_drop split: option.splits)


lemma keeps_built_from:
  "keeps env lat lon radius m \<Longrightarrow> built_from env lat lon (poi_of env lat lon m) m"
  by (auto simp add: keeps_def built_from_def poi_of_def split: sum.splits option.splits)



lemma subseq_filter_map:
  "\<exists>kept. subseq kept ns \<and> list_all2 (built_from env lat lon)
      (map (poi_of env lat lon) (filter (keeps env lat lon radius) ns)) kept"
proof (intro exI conjI)
  show "subseq (filter (keeps env lat lon radius) ns) ns" by simp
  show "list_all2 (built_from env lat lon)
      (map (poi_of env lat lon) (filter (keeps env lat lon radius) ns))
      (filter (keeps env lat lon radius) ns)"
    by (auto simp add: list_all2_map1 list_all2_same intro: keeps_built_from)
qed

subsection \<open>Outcomes in the example environment\<close>

lemma py_round_0: "py_round 0 n = 0"
  by (simp add: py_round_def)

lemma computed_example_env [simp]:
  "computed_distance (example_env g r) = example_distance"
  by (simp add: example_env_def)

lemma example_distance_origin: "example_distance 0 0 0 0 = Inr 0"
  by (simp add: example_distance_def)


lemma example_distance_half: "example_distance 0 0 0 180 = Inr (6371000 * pi)"
  by (simp add: example_distance_def haversine_distance_total haversine_m_half)



lemma far_beyond_250: "(250::real) < 6371000 * pi"
  using pi_ge_two by linarith

lemma found_from_cafe_origin:
  "0 \<le> radius \<Longrightarrow>
   found_from (example_env g r) 0 0 radius [cafe 0 0]
     = Inr [\<lparr>name = ''Cafe X'', type = ''cafe'', latitude = 0, longitude = 0, distance_m = 0\<rparr>]"
  by (simp add: found_from_eq raising_def keeps_def poi_of_def cafe_def
      example_distance_origin py_round_0)

subsection \<open>POI query service\<close>




text \<open>
  Claim C8. The output keeps the order of the response: its dictionaries are built, one for
  one and in the same order, from a subsequence of the nodes the Overpass API returned.
  Nothing is sorted; in the example the farther node comes first in the response and first in
  the output.
\<close>

theorem found_from_order:
  "found_from env lat lon radius ns = Inr out \<Longrightarrow>
     \<exists>kept. subseq kept ns \<and> list_all2 (built_from env lat lon) out kept"
proof -
  assume h: "found_from env lat lon radius ns = Inr out"
  have "out = [] \<or> out = map (poi_of env lat lon) (filter (keeps env lat lon radius) ns)"
    using h by (auto simp add: found_from_eq split: option.splits if_splits)
  then show ?thesis
  proof
    assume "out = []"
    then have "subseq [] ns \<and> list_all2 (built_from env lat lon) out []" by simp
    then show ?thesis by blast
  next
    assume "out = map (poi_of env lat lon) (filter (keeps env lat lon radius) ns)"
    then show ?thesis using subseq_filter_map [of ns env lat lon radius] by simp
  qed
qed

theorem found_from_order_witness:
  "found_from (example_env (Inr None) (Inr [])) 0 0 (6371000 * pi) [cafe 0 180, cafe 0 0]
     = Inr [\<lparr>name = ''Cafe X'', type = ''cafe'', latitude = 0, longitude = 180,
              distance_m = py_round (6371000 * pi) 2\<rparr>,
            \<lparr>name = ''Cafe X'', type = ''cafe'', latitude = 0, longitude = 0, distance_m = 0\<rparr>]
   \<and> (\<exists>kept. subseq kept [cafe 0 180, cafe 0 0]
         \<and> list_all2 (built_from (example_env (Inr None) (Inr [])) 0 0)
              [\<lparr>name = ''Cafe X'', type = ''cafe'', latitude = 0, longitude = 180,
                 distance_m = py_round (6371000 * pi) 2\<rparr>,
               \<lparr>name = ''Cafe X'', type = ''cafe'', latitude = 0, longitude = 0, distance_m = 0\<rparr>]
              kept)"
proof -
  let ?E = "example_env (Inr None) (Inr [])"
  have o: "found_from ?E 0 0 (6371000 * pi) [cafe 0 180, cafe 0 0]
     = Inr [\<lparr>name = ''Cafe X'', type = ''cafe'', latitude = 0, longitude = 180,
              distance_m = py_round (6371000 * pi) 2\<rparr>,
            \<lparr>name = ''Cafe X'', type = ''cafe'', latitude = 0, longitude = 0, distance_m = 0\<rparr>]"
    by (simp add: found_from_eq raising_def keeps_def poi_of_def cafe_def
        example_distance_origin example_distance_half py_round_0)
  from found_from_order [OF o] o show ?thesis by simp
qed

text \<open>
  Claim C10. A node within the radius whose name tag is the text \<open>Unnamed POI\<close> is left
  out: the outcome is the same as if it had not been returned, and alone it gives the empty
  output, as the same node with its name tag removed does.
\<close>

theorem found_from_unnamed_poi_text:
  assumes "node_tags n ''name'' = Some ''Unnamed POI''"
    and "computed_distance env lat lon (node_lat n) (node_lon n) = Inr d"
    and "d \<le> radius"
  shows "found_from env lat lon radius (pre @ n # post) = found_from env lat lon radius (pre @ post)
     \<and> found_from env lat lon radius [n] = Inr []
     \<and> found_from env lat lon radius [n\<lparr>node_tags := (node_tags n)(''name'' := None)\<rparr>] = Inr []"
proof -
  let ?n' = "n\<lparr>node_tags := (node_tags n)(''name'' := None)\<rparr>"
  have r: "raising env lat lon n = None" using assms(2) by (simp add: raising_def)
  have k: "\<not> keeps env lat lon radius n" using assms(1) by (simp add: keeps_def)
  have r': "raising env lat lon ?n' = None" using assms(2) by (simp add: raising_def)
  have k': "\<not> keeps env lat lon radius ?n'" by (simp add: keeps_def)
  have "found_from env lat lon radius (pre @ n # post) = found_from env lat lon radius (pre @ post)"
    using r k by (rule found_from_drop)
  moreover have "found_from env lat lon radius [n] = Inr []"
    using r k by (simp add: found_from_eq)
  moreover have "found_from env lat lon radius [?n'] = Inr []"
    using r' k' by (simp add: found_from_eq)
  ultimately show ?thesis by simp
qed

theorem found_from_unnamed_poi_text_witness:
  "node_tags (placeholder 0 0) ''amenity'' = Some ''bar''
   \<and> node_tags (placeholder 0 0) ''name'' = Some ''Unnamed POI''
   \<and> computed_distance (example_env (Inr None) (Inr [])) 0 0
        (node_lat (placeholder 0 0)) (node_lon (placeholder 0 0)) = Inr 0
   \<and> found_from (example_env (Inr None) (Inr [])) 0 0 250 ([cafe 0 0] @ placeholder 0 0 # [])
     = Inr [\<lparr>name = ''Cafe X'', type = ''cafe'', latitude = 0, longitude = 0, distance_m = 0\<rparr>]
   \<and> found_from (example_env (Inr None) (Inr [])) 0 0 250 [placeholder 0 0] = Inr []
   \<and> found_from (example_env (Inr None) (Inr [])) 0 0 250
        [(placeholder 0 0)\<lparr>node_tags := [''amenity'' \<mapsto> ''bar'']\<rparr>] = Inr []"
proof -
  let ?E = "example_env (Inr None) (Inr [])"
  have h: "node_tags (placeholder 0 0) ''name'' = Some ''Unnamed POI''"
    by (simp add: placeholder_def)
  have d: "computed_distance ?E 0 0 (node_lat (placeholder 0 0)) (node_lon (placeholder 0 0)) = Inr 0"
    by (simp add: placeholder_def example_distance_origin)
  have r: "(0::real) \<le> 250" by simp
  have e: "(node_tags (placeholder 0 0))(''name'' := None) = [''amenity'' \<mapsto> ''bar'']"
    by (simp add: placeholder_def fun_eq_iff)
  have t: "node_tags (placeholder 0 0) ''amenity'' = Some ''bar''"
    by (simp add: placeholder_def)
  have c: "found_from ?E 0 0 250 [cafe 0 0]
     = Inr [\<lparr>name = ''Cafe X'', type = ''cafe'', latitude = 0, longitude = 0, distance_m = 0\<rparr>]"
    by (simp add: found_from_cafe_origin)
  show ?thesis
    using found_from_unnamed_poi_text [OF h d r, of "[cafe 0 0]" "[]"] c h d t
    by (simp add: e)
qed




subsection \<open>Coordinate resolver\<close>

text \<open>
  Claim C7. \<open>get_coordinates\<close> calls the geocoder once, with the address followed by
  \<open>, Berlin, Germany\<close>, and never with the bare address; its outcome is decided by the
  answer to that query.
\<close>

theorem get_coordinates_query:
  "geocode_queries (snd (get_coordinates env s)) = [s @ '', Berlin, Germany'']
   \<and> s \<notin> set (geocode_queries (snd (get_coordinates env s)))
   \<and> fst (get_coordinates env s) =
       (case geocode env (s @ '', Berlin, Germany'') of
          Inr (Some location) \<Rightarrow>
            Inr (Some (location_latitude location), Some (location_longitude location))
        | Inr None \<Rightarrow> Inr (None, None)
        | Inl e \<Rightarrow> if is_Exception e then Inr (None, None) else Inl e)"
  by (simp add: get_coordinates_def get_coordinates_try_def geocode_queries_def
      split: sum.splits option.splits)

theorem get_coordinates_query_witness:
  "geocode_queries (snd (get_coordinates (example_env (Inr None) (Inr [])) ''Alexanderplatz 1''))
     = [''Alexanderplatz 1, Berlin, Germany'']
   \<and> fst (get_coordinates (example_env (Inr None) (Inr [])) ''Alexanderplatz 1'')
     = Inr (None, None)"
  using get_coordinates_query [of "example_env (Inr None) (Inr [])" "''Alexanderplatz 1''"]
  by (simp add: example_env_def)

subsection \<open>Orchestrator\<close>

text \<open>
  Claim C2. When the geocoder finds no match or raises, the run ends there: after two
  printed lines when the error is an instance of \<open>Exception\<close> or there is no match, with
  the error uncaught otherwise. In each case the Overpass API is not called and no map is
  saved.
\<close>

theorem main_geocoding_failed:
  assumes "geocode env (stdin_line env @ '', Berlin, Germany'') = Inr None
           \<or> geocode env (stdin_line env @ '', Berlin, Germany'') = Inl e"
  shows "overpass_queries (main env) = []
         \<and> saved_maps (main env) = []
         \<and> main env =
             [Input ''Enter an address in Berlin: '',
              GeocodeCall (stdin_line env @ '', Berlin, Germany'')]
             @ (case geocode env (stdin_line env @ '', Berlin, Germany'') of
                  Inr found \<Rightarrow>
                    [Print ''Error geocoding address: Address not found.'',
                     Print ''Could not find coordinates for the address.'']
                | Inl e \<Rightarrow>
                    if is_Exception e then
                      [Print (''Error geocoding address: '' @ str_exception e),
                       Print ''Could not find coordinates for the address.'']
                    else [Uncaught e])"
proof -
  have m: "main env =
             [Input ''Enter an address in Berlin: '',
              GeocodeCall (stdin_line env @ '', Berlin, Germany'')]
             @ (case geocode env (stdin_line env @ '', Berlin, Germany'') of
                  Inr found \<Rightarrow>
                    [Print ''Error geocoding address: Address not found.'',
                     Print ''Could not find coordinates for the address.'']
                | Inl e \<Rightarrow>
                    if is_Exception e then
                      [Print (''Error geocoding address: '' @ str_exception e),
                       Print ''Could not find coordinates for the address.'']
                    else [Uncaught e])"
    using assms by (auto simp add: main_def get_coordinates_def get_coordinates_try_def)
  have "overpass_queries (main env) = []" and "saved_maps (main env) = []"
    using assms
    by (auto simp add: m overpass_queries_def saved_maps_def split: if_splits)
  then show ?thesis using m by simp
qed

theorem main_geocoding_failed_witness:
  "main (example_env (Inr None) (Inr [cafe 0 0]))
     = [Input ''Enter an address in Berlin: '',
        GeocodeCall ''Alexanderplatz 1, Berlin, Germany'',
        Print ''Error geocoding address: Address not found.'',
        Print ''Could not find coordinates for the address.'']
   \<and> overpass_queries (main (example_env (Inr None) (Inr [cafe 0 0]))) = []
   \<and> saved_maps (main (example_env (Inr None) (Inr [cafe 0 0]))) = []
   \<and> main (example_env (Inl (CollaboratorError ''timed out'')) (Inr [cafe 0 0]))
     = [Input ''Enter an address in Berlin: '',
        GeocodeCall ''Alexanderplatz 1, Berlin, Germany'',
        Print ''Error geocoding address: timed out'',
        Print ''Could not find coordinates for the address.'']
   \<and> overpass_queries (main (example_env (Inl (CollaboratorError ''timed out'')) (Inr [cafe 0 0]))) = []
   \<and> saved_maps (main (example_env (Inl (CollaboratorError ''timed out'')) (Inr [cafe 0 0]))) = []
   \<and> main (example_env (Inl (NonException ''interrupted'')) (Inr [cafe 0 0]))
     = [Input ''Enter an address in Berlin: '',
        GeocodeCall ''Alexanderplatz 1, Berlin, Germany'',
        Uncaught (NonException ''interrupted'')]
   \<and> overpass_queries (main (example_env (Inl (NonException ''interrupted'')) (Inr [cafe 0 0]))) = []
   \<and> saved_maps (main (example_env (Inl (NonException ''interrupted'')) (Inr [cafe 0 0]))) = []"
  using main_geocoding_failed [of "example_env (Inr None) (Inr [cafe 0 0])" "ValueError []"]
    main_geocoding_failed [of "example_env (Inl (CollaboratorError ''timed out'')) (Inr [cafe 0 0])"
      "CollaboratorError ''timed out''"]
    main_geocoding_failed [of "example_env (Inl (NonException ''interrupted'')) (Inr [cafe 0 0])"
      "NonException ''interrupted''"]
  by (simp add: example_env_def overpass_queries_def saved_maps_def)

text \<open>
  Claim C4. When the geocoder answers with a location and no point of interest passes the
  filter, \<open>main\<close> ends with the line saying so: \<open>create_map\<close> is not reached and no map is
  saved.
\<close>

theorem main_no_pois:
  assumes "geocode env (stdin_line env @ '', Berlin, Germany'') = Inr (Some l)"
    and "fst (find_points_of_interest env (location_latitude l) (location_longitude l) 250) = Inr []"
  shows "saved_maps (main env) = []
         \<and> main env =
             [Input ''Enter an address in Berlin: '',
              GeocodeCall (stdin_line env @ '', Berlin, Germany''),
              Print (''Coordinates for '' @ stdin_line env @ '': (''
                     @ fmt env (location_latitude l) @ '', ''
                     @ fmt env (location_longitude l) @ '')'')]
             @ snd (find_points_of_interest env (location_latitude l) (location_longitude l) 250)
             @ [Print ''No named points of interest found within 250 meters.'']"
proof -
  obtain r t where f: "find_points_of_interest env (location_latitude l) (location_longitude l) 250 = (r, t)"
    by (cases "find_points_of_interest env (location_latitude l) (location_longitude l) 250")
  have e: "r = Inr []" using assms(2) f by simp
  have m: "main env =
             [Input ''Enter an address in Berlin: '',
              GeocodeCall (stdin_line env @ '', Berlin, Germany''),
              Print (''Coordinates for '' @ stdin_line env @ '': (''
                     @ fmt env (location_latitude l) @ '', ''
                     @ fmt env (location_longitude l) @ '')'')]
             @ t
             @ [Print ''No named points of interest found within 250 meters.'']"
    using assms(1) f e
    by (simp add: main_def get_coordinates_def get_coordinates_try_def Let_def)
  have s: "saved_maps t = []"
    using f by (auto simp add: find_points_of_interest_def find_points_of_interest_try_def
        saved_maps_def Let_def split: sum.splits if_splits)
  have "saved_maps (main env) = []"
    using s by (simp add: m) (simp add: saved_maps_def)
  then show ?thesis using m f s by simp
qed

theorem main_no_pois_witness:
  "main (example_env (Inr (Some \<lparr>location_latitude = 0, location_longitude = 0\<rparr>))
           (Inr [bench 0 0, cafe 0 180]))
     = [Input ''Enter an address in Berlin: '',
        GeocodeCall ''Alexanderplatz 1, Berlin, Germany'',
        Print ''Coordinates for Alexanderplatz 1: (#, #)'',
        OverpassCall
          (overpass_query_text
             (example_env (Inr (Some \<lparr>location_latitude = 0, location_longitude = 0\<rparr>))
                (Inr [bench 0 0, cafe 0 180])) 250 0 0),
        Print ''No named points of interest found within 250 meters.'']
   \<and> saved_maps
        (main (example_env (Inr (Some \<lparr>location_latitude = 0, location_longitude = 0\<rparr>))
                 (Inr [bench 0 0, cafe 0 180]))) = []"
proof -
  let ?E = "example_env (Inr (Some \<lparr>location_latitude = 0, location_longitude = 0\<rparr>))
              (Inr [bench 0 0, cafe 0 180])"
  let ?l = "\<lparr>location_latitude = 0, location_longitude = 0\<rparr>"
  have g: "geocode ?E (stdin_line ?E @ '', Berlin, Germany'') = Inr (Some ?l)"
    by (simp add: example_env_def)
  have q: "overpass_query ?E (overpass_query_text ?E 250 0 0) = Inr [bench 0 0, cafe 0 180]"
    by (simp add: example_env_def)
  have l: "for_nodes ?E 0 0 250 [bench 0 0, cafe 0 180] [] = Inr []"
    using far_beyond_250
    by (simp add: for_nodes_eq raising_def keeps_def bench_def cafe_def
        example_distance_origin example_distance_half)
  have f: "find_points_of_interest ?E 0 0 250 = (Inr [], [OverpassCall (overpass_query_text ?E 250 0 0)])"
    by (simp add: find_points_of_interest_def find_points_of_interest_try_def Let_def q l
        del: for_nodes.simps)
  have "fst (find_points_of_interest ?E (location_latitude ?l) (location_longitude ?l) 250) = Inr []"
    using f by simp
  from main_no_pois [OF g this] show ?thesis
    using f by (simp add: example_env_def saved_maps_def)
qed

subsection \<open>Presentation builder\<close>

lemma children_add_poi_markers:
  "filter is_Circle (map_children (add_poi_markers env pois m)) = filter is_Circle (map_children m)"
  by (induction pois arbitrary: m) (simp_all add: add_to_def)

text \<open>
  Claim C9, as stated: the circle drawn by \<open>create_map\<close> has the radius used for the POI
  query. It fails for a query made with a radius of 100 metres: the circle has radius 250.
\<close>

theorem create_map_circle_counterexample:
  "fst (find_points_of_interest (example_env (Inr None) (Inr [cafe 0 0])) 0 0 100)
     = Inr [\<lparr>name = ''Cafe X'', type = ''cafe'', latitude = 0, longitude = 0, distance_m = 0\<rparr>]
   \<and> map circle_radius
       (circles (create_map (example_env (Inr None) (Inr [cafe 0 0])) 0 0
                   [\<lparr>name = ''Cafe X'', type = ''cafe'', latitude = 0, longitude = 0,
                      distance_m = 0\<rparr>]
                   ''Alexanderplatz 1''))
     \<noteq> [100]"
proof -
  let ?E = "example_env (Inr None) (Inr [cafe 0 0])"
  have q: "overpass_query ?E (overpass_query_text ?E 100 0 0) = Inr [cafe 0 0]"
    by (simp add: example_env_def)
  have l: "for_nodes ?E 0 0 100 [cafe 0 0] []
     = Inr [\<lparr>name = ''Cafe X'', type = ''cafe'', latitude = 0, longitude = 0, distance_m = 0\<rparr>]"
    by (simp add: for_nodes_eq raising_def keeps_def poi_of_def cafe_def
        example_distance_origin py_round_0)
  have "fst (find_points_of_interest ?E 0 0 100)
     = Inr [\<lparr>name = ''Cafe X'', type = ''cafe'', latitude = 0, longitude = 0, distance_m = 0\<rparr>]"
    by (simp add: find_points_of_interest_def find_points_of_interest_try_def Let_def q l
        del: for_nodes.simps)
  then show ?thesis
    by (simp add: circles_def saved_maps_def create_map_def Let_def add_to_def)
qed

text \<open>
  Claim C9, amended. \<open>create_map\<close> draws exactly one circle, centred on the origin, whose
  radius is the constant 250 metres; it is the radius of the POI query when that radius is
  250, as it is in \<open>main\<close>.
\<close>

theorem create_map_circle:
  "circles (create_map env lat lon pois address) = [Circle (lat, lon) 250 ''green'' True (1 / 10)]
   \<and> (radius = 250 \<and> fst (find_points_of_interest env lat lon radius) = Inr pois \<longrightarrow>
        map circle_radius (circles (create_map env lat lon pois address)) = [radius])"
  by (simp add: circles_def saved_maps_def create_map_def Let_def add_to_def
      children_add_poi_markers)

theorem create_map_circle_witness:
  "fst (find_points_of_interest (example_env (Inr None) (Inr [cafe 0 0])) 0 0 250)
     = Inr [\<lparr>name = ''Cafe X'', type = ''cafe'', latitude = 0, longitude = 0, distance_m = 0\<rparr>]
   \<and> map circle_radius
       (circles (create_map (example_env (Inr None) (Inr [cafe 0 0])) 0 0
                   [\<lparr>name = ''Cafe X'', type = ''cafe'', latitude = 0, longitude = 0,
                      distance_m = 0\<rparr>]
                   ''Alexanderplatz 1''))
     = [250]"
proof -
  let ?E = "example_env (Inr None) (Inr [cafe 0 0])"
  let ?p = "\<lparr>name = ''Cafe X'', type = ''cafe'', latitude = 0, longitude = 0, distance_m = 0\<rparr>"
  have q: "overpass_query ?E (overpass_query_text ?E 250 0 0) = Inr [cafe 0 0]"
    by (simp add: example_env_def)
  have l: "for_nodes ?E 0 0 250 [cafe 0 0] [] = Inr [?p]"
    by (simp add: for_nodes_eq raising_def keeps_def poi_of_def cafe_def
        example_distance_origin py_round_0)
  have f: "fst (find_points_of_interest ?E 0 0 250) = Inr [?p]"
    by (simp add: find_points_of_interest_def find_points_of_interest_try_def Let_def q l
        del: for_nodes.simps)
  show ?thesis
    using create_map_circle [of ?E 0 0 "[?p]" "''Alexanderplatz 1''" 250] f
    by simp
qed

end
